theory Spec2Isabelle
  imports Main "HOL-Library.AList" "HOL-Library.Sublist"
begin

section \<open>Values\<close>

text \<open>
  The values a caller can hand to the request functions as \<open>data\<close> or \<open>options\<close>, the
  values a response body parses to, and the values the functions return.  Numbers are
  integers here: only their truthiness is ever inspected.  \<open>JFormData\<close> is an instance of
  the platform class \<open>FormData\<close> (its string entries), \<open>JError\<close> an instance of \<open>Error\<close>
  (its message).
\<close>

datatype jsval =
    JUndefined
  | JNull
  | JBool bool
  | JNum int
  | JStr string
  | JArr "jsval list"
  | JObj "(string \<times> jsval) list"
  | JFormData "(string \<times> string) list"
  | JError string

text \<open>JavaScript's conversion to boolean, as used by \<open>data ? ... : ...\<close>.\<close>

fun truthy :: "jsval \<Rightarrow> bool" where
  "truthy JUndefined = False"
| "truthy JNull = False"
| "truthy (JBool b) = b"
| "truthy (JNum n) = (n \<noteq> 0)"
| "truthy (JStr s) = (s \<noteq> [])"
| "truthy (JArr xs) = True"
| "truthy (JObj ps) = True"
| "truthy (JFormData es) = True"
| "truthy (JError m) = True"

text \<open>\<open>data instanceof FormData\<close>.\<close>

fun instanceofFormData :: "jsval \<Rightarrow> bool" where
  "instanceofFormData (JFormData es) = True"
| "instanceofFormData v = False"

text \<open>Reading a property of a returned value; \<open>None\<close> when the property is not there.\<close>

fun property :: "jsval \<Rightarrow> string \<Rightarrow> jsval option" where
  "property (JObj ps) k = map_of ps k"
| "property v k = None"

fun ownKeys :: "jsval \<Rightarrow> string list" where
  "ownKeys (JObj ps) = map fst ps"
| "ownKeys v = []"

section \<open>Request objects\<close>

text \<open>
  The object literals that \<open>decorateRequest\<close> and \<open>getHeaderDataDecoration\<close> build and
  merge: every value in them is a string or a nested plain object.  Properties are kept
  in insertion order.
\<close>

datatype init = Str string | Obj "(string \<times> init) list"

fun field :: "init \<Rightarrow> string \<Rightarrow> init option" where
  "field (Obj ps) k = map_of ps k"
| "field (Str s) k = None"

text \<open>A header of a request: the property \<open>name\<close> of its \<open>headers\<close> object.\<close>

definition header :: "init \<Rightarrow> string \<Rightarrow> init option" where
  "header request name =
     (case field request ''headers'' of None \<Rightarrow> None | Some hs \<Rightarrow> field hs name)"

text \<open>
  lodash's \<open>_.merge\<close> on such objects.  \<open>baseMerge object source\<close> walks the properties of
  \<open>source\<close> in order: a string is assigned to the property (replacing what was there, or
  appended as a new property); a plain object is merged recursively into the property's
  current value when that is an object, and into a fresh \<open>{}\<close> otherwise.
\<close>

function baseMerge :: "(string \<times> init) list \<Rightarrow> (string \<times> init) list \<Rightarrow> (string \<times> init) list" where
  "baseMerge object [] = object"
| "baseMerge object ((key, Str s) # source) =
     baseMerge (AList.update key (Str s) object) source"
| "baseMerge object ((key, Obj srcValue) # source) =
     baseMerge
       (AList.update key
          (Obj (baseMerge
                  (case map_of object key of Some (Obj objValue) \<Rightarrow> objValue | _ \<Rightarrow> [])
                  srcValue))
          object)
       source"
  by pat_completeness auto
termination
  by (relation "measure (\<lambda>(object, source). size_list (size_prod (\<lambda>k. 0) size) source)") auto

text \<open>\<open>_.merge(object, ...sources)\<close>: the sources are merged into \<open>object\<close> from left to right.\<close>

fun properties :: "init \<Rightarrow> (string \<times> init) list" where
  "properties (Obj ps) = ps"
| "properties (Str s) = []"

definition merge :: "init \<Rightarrow> init list \<Rightarrow> init" where
  "merge object sources = Obj (foldl baseMerge (properties object) (map properties sources))"

text \<open>Object spread \<open>{...a, ...b}\<close>: own properties copied in order, later ones winning.\<close>

definition spread :: "init \<Rightarrow> init \<Rightarrow> init" where
  "spread a b =
     Obj (fold (\<lambda>(k, v). AList.update k v) (properties b)
            (fold (\<lambda>(k, v). AList.update k v) (properties a) []))"

section \<open>The platform\<close>

text \<open>
  A \<open>Response\<close> of the fetch API, as far as the code reads it: \<open>status\<close>, \<open>ok\<close>, and what
  \<open>res.json()\<close> settles to (\<open>None\<close> when it rejects, that is, the body does not parse).
\<close>

record response =
  status :: int
  ok :: bool
  json :: "jsval option"

text \<open>
  Modelled from the spec: the token store.  \<open>getLocalToken\<close> and \<open>resetLocalToken\<close> are
  imported from \<open>api/LocalStorageCookiesSvc\<close>, which is not among the sources.  The
  specification gives the store two operations, \<open>get() -> Token|empty\<close> and
  \<open>clear() -> void\<close>, a token being an opaque string.  The value \<open>getLocalToken()\<close> returns
  is the field \<open>getLocalToken\<close> below (a string or null, as the code annotates it); a call of
  \<open>resetLocalToken\<close> is recorded as the effect \<open>ResetLocalToken\<close>.  Neither throws.
\<close>

text \<open>
  What else the module takes from outside: \<open>process.env.BASE_API\<close>, a string;
  \<open>JSON.stringify\<close>, which returns a string or throws; and \<open>fetch\<close>, whose promise is
  rejected with a reason (\<open>Inl\<close>) or fulfilled with a response (\<open>Inr\<close>).
\<close>

record env =
  BASE_API :: string
  getLocalToken :: "string option"
  JSON_stringify :: "jsval \<Rightarrow> jsval + string"
  fetch :: "string \<Rightarrow> init \<Rightarrow> jsval + response"

text \<open>
  What a call does besides returning: the console lines, the call of \<open>resetLocalToken\<close>
  and the call of \<open>fetch\<close>, in the order they happen.
\<close>

datatype effect =
    ConsoleLog string init
  | ConsoleError jsval
  | ResetLocalToken
  | Fetch string init

text \<open>How the promise returned by an async function settles.\<close>

datatype settled = Fulfilled jsval | Rejected jsval

section \<open>The request wrapper\<close>

text \<open>\<open>/(http|https):\/\//.test(url)\<close>: the pattern is not anchored.\<close>

fun occursIn :: "string \<Rightarrow> string \<Rightarrow> bool" where
  "occursIn pat [] = (pat = [])"
| "occursIn pat (c # cs) = (prefix pat (c # cs) \<or> occursIn pat cs)"

definition isRequestToExternalResource :: "string \<Rightarrow> bool" where
  "isRequestToExternalResource url = (occursIn ''http://'' url \<or> occursIn ''https://'' url)"

text \<open>The truthiness of \<open>token\<close>, a string or null: null and the empty string are falsy.\<close>

fun truthyToken :: "string option \<Rightarrow> bool" where
  "truthyToken None = False"
| "truthyToken (Some t) = (t \<noteq> [])"

text \<open>
  The payload decoration.  \<open>JSON.stringify\<close> is called only on truthy \<open>data\<close>; when it
  throws, the exception leaves the function (\<open>Inl\<close>).
\<close>

definition getHeaderDataDecoration :: "env \<Rightarrow> jsval \<Rightarrow> jsval + init" where
  "getHeaderDataDecoration e data =
     (case (if truthy data
            then (case JSON_stringify e data of
                    Inl err \<Rightarrow> Inl err
                  | Inr s \<Rightarrow> Inr (Obj [(''body'', Str s)]))
            else Inr (Obj [])) of
        Inl err \<Rightarrow> Inl err
      | Inr requesDataDecoration \<Rightarrow>
          (let requestContentTypeDecoration =
                 (if instanceofFormData data then Obj []
                  else Obj [(''headers'',
                             Obj [(''Content-Type'', Str ''application/json; charset=UTF-8'')])])
           in Inr (spread requesDataDecoration requestContentTypeDecoration)))"

text \<open>
  \<open>decorateRequest\<close> takes the object \<open>{method, url, data, options, cb}\<close>, here as five
  arguments, and returns \<open>{request, URL}\<close>, here together with the console line it writes.
\<close>

record decorated =
  request :: init
  URL :: string

definition decorateRequest ::
  "env \<Rightarrow> string \<Rightarrow> string \<Rightarrow> jsval \<Rightarrow> jsval \<Rightarrow> (init \<Rightarrow> init) \<Rightarrow> jsval + (decorated \<times> effect list)" where
  "decorateRequest e method url data options cb =
     (let defaults = Obj [(''method'', Str method), (''headers'', Obj [])];
          token = getLocalToken e;
          external = isRequestToExternalResource url;
          U = (if external then url else BASE_API e @ url);
          requestAuthDecoration =
            (if \<not> external \<and> truthyToken token
             then Obj [(''headers'', Obj [(''Authorization'', Str (''JWT '' @ the token))])]
             else Obj [])
      in case getHeaderDataDecoration e data of
           Inl err \<Rightarrow> Inl err
         | Inr requestHeadersDataDecoration \<Rightarrow>
             (let r = merge (Obj []) [defaults, requestAuthDecoration, requestHeadersDataDecoration]
              in Inr (\<lparr>request = r, URL = U\<rparr>,
                      [if \<not> external
                       then ConsoleLog (''Request '' @ url @ '' was sent to our domain'') r
                       else ConsoleLog (''Request '' @ url @ '' was sent to external domain'') r])))"

text \<open>
  \<open>checkStatus\<close> returns the response it was given; the branch for 403 and 401 is the only
  one with an effect.
\<close>

definition checkStatus :: "response \<Rightarrow> response \<times> effect list" where
  "checkStatus res =
     (if status res \<ge> 200 \<and> status res < 300 then (res, [])
      else if status res \<ge> 300 \<and> status res < 400 then (res, [])
      else if status res = 400 then (res, [])
      else if status res = 403 \<or> status res = 401 then (res, [ResetLocalToken])
      else if status res = 404 then (res, [])
      else if status res \<ge> 500 then (res, [])
      else (res, []))"

text \<open>
  \<open>parseJSON\<close>: the \<open>catch\<close> block runs when \<open>res.json()\<close> rejects.
\<close>

definition parseJSON :: "response \<Rightarrow> jsval" where
  "parseJSON res =
     (case json res of
        None \<Rightarrow>
          (if status res = 204 then JObj [(''ok'', JBool True), (''data'', JObj [])]
           else JObj [(''ok'', JBool False)])
      | Some j \<Rightarrow>
          (if \<not> ok res then JObj [(''data'', j), (''ok'', JBool False)]
           else JObj [(''data'', j), (''ok'', JBool True)]))"

text \<open>
  \<open>requestWrapper method\<close> is the async function of \<open>url\<close>, \<open>data\<close>, \<open>options\<close> and \<open>cb\<close>.
  A parameter left out (or \<open>undefined\<close>) takes its default: \<open>null\<close>, \<open>{}\<close>, and the
  identity.  An exception thrown while the request is decorated happens before the
  promise chain exists, so it rejects the returned promise; a rejection inside the chain
  reaches the \<open>catch\<close> handler, which logs the reason and returns it.
\<close>

definition requestWrapper ::
  "string \<Rightarrow> env \<Rightarrow> string \<Rightarrow> jsval \<Rightarrow> jsval \<Rightarrow> (init \<Rightarrow> init) option \<Rightarrow> settled \<times> effect list" where
  "requestWrapper method e url data0 options0 cb0 =
     (let data = (if data0 = JUndefined then JNull else data0);
          options = (if options0 = JUndefined then JObj [] else options0);
          cb = (case cb0 of None \<Rightarrow> (\<lambda>a. a) | Some f \<Rightarrow> f)
      in case decorateRequest e method url data options cb of
           Inl err \<Rightarrow> (Rejected err, [])
         | Inr (d, logged) \<Rightarrow>
             (case fetch e (URL d) (request d) of
                Inl err \<Rightarrow>
                  (Fulfilled err, logged @ [Fetch (URL d) (request d), ConsoleError err])
              | Inr res \<Rightarrow>
                  (case checkStatus res of
                     (res', evicted) \<Rightarrow>
                       (Fulfilled (parseJSON res'),
                        logged @ [Fetch (URL d) (request d)] @ evicted))))"

text \<open>The five exported functions.\<close>

definition get :: "env \<Rightarrow> string \<Rightarrow> jsval \<Rightarrow> jsval \<Rightarrow> (init \<Rightarrow> init) option \<Rightarrow> settled \<times> effect list" where
  "get = requestWrapper ''GET''"

definition post :: "env \<Rightarrow> string \<Rightarrow> jsval \<Rightarrow> jsval \<Rightarrow> (init \<Rightarrow> init) option \<Rightarrow> settled \<times> effect list" where
  "post = requestWrapper ''POST''"

definition put :: "env \<Rightarrow> string \<Rightarrow> jsval \<Rightarrow> jsval \<Rightarrow> (init \<Rightarrow> init) option \<Rightarrow> settled \<times> effect list" where
  "put = requestWrapper ''PUT''"

definition patch :: "env \<Rightarrow> string \<Rightarrow> jsval \<Rightarrow> jsval \<Rightarrow> (init \<Rightarrow> init) option \<Rightarrow> settled \<times> effect list" where
  "patch = requestWrapper ''PATCH''"

definition del :: "env \<Rightarrow> string \<Rightarrow> jsval \<Rightarrow> jsval \<Rightarrow> (init \<Rightarrow> init) option \<Rightarrow> settled \<times> effect list" where
  "del = requestWrapper ''DELETE''"

section \<open>The specification's vocabulary\<close>

text \<open>
  Three notions are taken from the specification's words rather than from the code, so that
  its sentences can be compared with what the code computes.

  A failed Result is ``a Result with \<open>ok\<close> equal to false'' that the call resolves to.
\<close>

definition failedResult :: "settled \<Rightarrow> bool" where
  "failedResult s =
     (case s of Fulfilled v \<Rightarrow> property v ''ok'' = Some (JBool False) | Rejected err \<Rightarrow> False)"

text \<open>
  The result shape is ``exactly \<open>{ok: boolean, data: object}\<close>'': the two properties
  \<open>ok\<close> and \<open>data\<close> and no other, a boolean and an object.
\<close>

definition resultShape :: "jsval \<Rightarrow> bool" where
  "resultShape v =
     (set (ownKeys v) = {''ok'', ''data''} \<and>
      (case property v ''ok'' of Some (JBool b) \<Rightarrow> True | _ \<Rightarrow> False) \<and>
      (case property v ''data'' of Some (JObj ps) \<Rightarrow> True | _ \<Rightarrow> False))"

text \<open>
  A URL ``matches an absolute-URL pattern (\<open>scheme://\<close>)'' when it starts with a scheme
  name followed by \<open>://\<close>.
\<close>

definition schemeChar :: "char \<Rightarrow> bool" where
  "schemeChar c =
     (c \<in> set ''abcdefghijklmnopqrstuvwxyzABCDEFGHIJKLMNOPQRSTUVWXYZ0123456789+-.'')"

definition matchesSchemePattern :: "string \<Rightarrow> bool" where
  "matchesSchemePattern url =
     (takeWhile schemeChar url \<noteq> [] \<and> prefix ''://'' (dropWhile schemeChar url))"

section \<open>An example platform\<close>

text \<open>
  A platform for the concrete runs below: the base API origin \<open>https://api.example.com\<close>,
  a given stored token, \<open>JSON.stringify\<close> on the two payloads the runs use (the empty
  object and a \<open>FormData\<close>, both of which serialise to \<open>{}\<close>), and a network that
  answers every request with the given outcome.
\<close>

definition exampleEnv :: "string option \<Rightarrow> jsval + response \<Rightarrow> env" where
  "exampleEnv token outcome =
     \<lparr>BASE_API = ''https://api.example.com'',
      getLocalToken = token,
      JSON_stringify = (\<lambda>v. case v of
                          JObj [] \<Rightarrow> Inr ''{}''
                        | JFormData es \<Rightarrow> Inr ''{}''
                        | _ \<Rightarrow> Inl (JError ''TypeError'')),
      fetch = (\<lambda>U r. outcome)\<rparr>"

lemmas run_simps =
  get_def post_def put_def patch_def del_def requestWrapper_def decorateRequest_def
  getHeaderDataDecoration_def spread_def merge_def isRequestToExternalResource_def
  checkStatus_def parseJSON_def exampleEnv_def header_def Let_def

section \<open>Properties of the building blocks\<close>

subsection \<open>The pattern test\<close>

lemma occursIn_iff: "occursIn p s \<longleftrightarrow> (\<exists>a b. s = a @ p @ b)"
  by (induction s) (auto simp: prefix_def Cons_eq_append_conv)

lemma external_iff:
  "isRequestToExternalResource url \<longleftrightarrow>
     (\<exists>a b. url = a @ ''http://'' @ b) \<or> (\<exists>a b. url = a @ ''https://'' @ b)"
  unfolding isRequestToExternalResource_def occursIn_iff ..

subsection \<open>Payload decoration\<close>

lemma truthy_not_FormData: "\<not> truthy data \<Longrightarrow> \<not> instanceofFormData data"
  by (cases data) auto

lemma getHeaderDataDecoration_falsy:
  "\<not> truthy data \<Longrightarrow>
   getHeaderDataDecoration e data =
     Inr (Obj [(''headers'', Obj [(''Content-Type'', Str ''application/json; charset=UTF-8'')])])"
  by (simp add: getHeaderDataDecoration_def spread_def truthy_not_FormData)

lemma getHeaderDataDecoration_throws:
  "truthy data \<Longrightarrow> JSON_stringify e data = Inl err \<Longrightarrow> getHeaderDataDecoration e data = Inl err"
  by (simp add: getHeaderDataDecoration_def)

lemma getHeaderDataDecoration_FormData:
  "instanceofFormData data \<Longrightarrow> JSON_stringify e data = Inr s \<Longrightarrow>
   getHeaderDataDecoration e data = Inr (Obj [(''body'', Str s)])"
  by (cases data) (simp_all add: getHeaderDataDecoration_def spread_def)

lemma getHeaderDataDecoration_json:
  "truthy data \<Longrightarrow> \<not> instanceofFormData data \<Longrightarrow> JSON_stringify e data = Inr s \<Longrightarrow>
   getHeaderDataDecoration e data =
     Inr (Obj [(''body'', Str s),
               (''headers'', Obj [(''Content-Type'', Str ''application/json; charset=UTF-8'')])])"
  by (simp add: getHeaderDataDecoration_def spread_def)

subsection \<open>The decorated request\<close>

text \<open>
  Whenever the payload decoration is built, the merged request has the method, then the
  headers (the auth header, if any, before the content type, if any), then the body, if
  any.
\<close>

lemma decorateRequest_request:
  assumes "getHeaderDataDecoration e data = Inr h"
  shows "\<exists>d lg. decorateRequest e m url data options cb = Inr (d, lg) \<and>
     request d =
       Obj ([(''method'', Str m),
             (''headers'',
              Obj ((if \<not> isRequestToExternalResource url \<and> truthyToken (getLocalToken e)
                    then [(''Authorization'', Str (''JWT '' @ the (getLocalToken e)))] else []) @
                   (if instanceofFormData data then []
                    else [(''Content-Type'', Str ''application/json; charset=UTF-8'')])))] @
            (if truthy data then [(''body'', Str (projr (JSON_stringify e data)))] else []))"
proof (cases "truthy data")
  case False
  with assms show ?thesis
    by (auto simp add: getHeaderDataDecoration_falsy truthy_not_FormData decorateRequest_def
        Let_def merge_def)
next
  case True
  show ?thesis
  proof (cases "JSON_stringify e data")
    case (Inl err)
    with True assms show ?thesis by (simp add: getHeaderDataDecoration_throws)
  next
    case (Inr s)
    show ?thesis
    proof (cases "instanceofFormData data")
      case fd: True
      with Inr assms show ?thesis
        by (auto simp add: True getHeaderDataDecoration_FormData decorateRequest_def Let_def
            merge_def)
    next
      case fd: False
      with Inr assms True show ?thesis
        by (auto simp add: getHeaderDataDecoration_json decorateRequest_def Let_def merge_def)
    qed
  qed
qed

lemma decorateRequest_payload:
  "decorateRequest e m url data options cb = Inr (d, lg) \<Longrightarrow>
   \<exists>h. getHeaderDataDecoration e data = Inr h"
  by (auto simp: decorateRequest_def Let_def split: sum.splits)

lemma decorateRequest_built:
  assumes "decorateRequest e m url data options cb = Inr (d, lg)"
  shows "request d =
       Obj ([(''method'', Str m),
             (''headers'',
              Obj ((if \<not> isRequestToExternalResource url \<and> truthyToken (getLocalToken e)
                    then [(''Authorization'', Str (''JWT '' @ the (getLocalToken e)))] else []) @
                   (if instanceofFormData data then []
                    else [(''Content-Type'', Str ''application/json; charset=UTF-8'')])))] @
            (if truthy data then [(''body'', Str (projr (JSON_stringify e data)))] else []))"
proof -
  from assms obtain h where "getHeaderDataDecoration e data = Inr h"
    using decorateRequest_payload by blast
  from decorateRequest_request [OF this, of m url options cb] assms show ?thesis
    by auto
qed

lemma decorateRequest_succeeds:
  assumes "truthy data \<longrightarrow> (\<exists>s. JSON_stringify e data = Inr s)"
  shows "\<exists>d lg. decorateRequest e m url data options cb = Inr (d, lg)"
proof -
  have "\<exists>h. getHeaderDataDecoration e data = Inr h"
  proof (cases "truthy data")
    case False
    then show ?thesis by (simp add: getHeaderDataDecoration_falsy)
  next
    case True
    with assms obtain s where "JSON_stringify e data = Inr s" by blast
    with True show ?thesis
      by (cases "instanceofFormData data")
        (simp_all add: getHeaderDataDecoration_FormData getHeaderDataDecoration_json)
  qed
  then show ?thesis using decorateRequest_request by blast
qed

lemma decorateRequest_log:
  "decorateRequest e m url data options cb = Inr (d, lg) \<Longrightarrow>
   \<exists>line. lg = [ConsoleLog line (request d)]"
  by (auto simp: decorateRequest_def Let_def split: sum.splits if_splits)

lemma decorateRequest_URL:
  "decorateRequest e m url data options cb = Inr (d, lg) \<Longrightarrow>
   URL d = (if isRequestToExternalResource url then url else BASE_API e @ url)"
  by (auto simp: decorateRequest_def Let_def split: sum.splits)

lemma decorateRequest_Authorization:
  assumes "decorateRequest e m url data options cb = Inr (d, lg)"
  shows "header (request d) ''Authorization'' =
           (if \<not> isRequestToExternalResource url \<and> truthyToken (getLocalToken e)
            then Some (Str (''JWT '' @ the (getLocalToken e))) else None)"
  by (simp add: decorateRequest_built [OF assms] header_def)

lemma decorateRequest_ignores:
  "decorateRequest e m url data options cb = decorateRequest e m url data options' cb'"
  by (simp add: decorateRequest_def)

subsection \<open>Status inspection and the wrapper\<close>

lemma count_checkStatus:
  "count_list (snd (checkStatus res)) ResetLocalToken =
     (if status res = 401 \<or> status res = 403 then 1 else 0)"
  by (simp add: checkStatus_def)

lemma no_Fetch_checkStatus: "Fetch U r \<notin> set (snd (checkStatus res))"
  by (simp add: checkStatus_def)

lemma fst_checkStatus: "fst (checkStatus res) = res"
  by (simp add: checkStatus_def)

lemma verb_is_wrapper:
  "f \<in> {get, post, put, patch, del} \<Longrightarrow> \<exists>m. f = requestWrapper m"
  by (auto simp: get_def post_def put_def patch_def del_def)

text \<open>The three ways a call can go: the decoration throws, the transport fails, a response arrives.\<close>

lemma requestWrapper_unfold:
  "requestWrapper m e url data options cb =
     (case decorateRequest e m url (if data = JUndefined then JNull else data)
             (if options = JUndefined then JObj [] else options)
             (case cb of None \<Rightarrow> (\<lambda>a. a) | Some g \<Rightarrow> g) of
        Inl err \<Rightarrow> (Rejected err, [])
      | Inr (d, lg) \<Rightarrow>
          (case fetch e (URL d) (request d) of
             Inl err \<Rightarrow> (Fulfilled err, lg @ [Fetch (URL d) (request d), ConsoleError err])
           | Inr res \<Rightarrow>
               (Fulfilled (parseJSON res),
                lg @ [Fetch (URL d) (request d)] @ snd (checkStatus res))))"
  by (simp add: requestWrapper_def Let_def case_prod_beta fst_checkStatus split: sum.splits)

text \<open>
  When a response arrives it is the one the network gave to the single request the call
  issued, and the call resolves to its normalised body.
\<close>

lemma requestWrapper_responded:
  assumes "Fetch U r \<in> set (snd (requestWrapper m e url data options cb))"
    and "fetch e U r = Inr res"
  shows "\<exists>lg. requestWrapper m e url data options cb =
           (Fulfilled (parseJSON res), lg @ [Fetch U r] @ snd (checkStatus res)) \<and>
           (\<exists>line. lg = [ConsoleLog line r])"
proof -
  define data' where "data' = (if data = JUndefined then JNull else data)"
  define options' where "options' = (if options = JUndefined then JObj [] else options)"
  define cb' where "cb' = (case cb of None \<Rightarrow> (\<lambda>a. a) | Some g \<Rightarrow> g)"
  show ?thesis
  proof (cases "decorateRequest e m url data' options' cb'")
    case (Inl err)
    with assms(1) show ?thesis
      by (simp add: requestWrapper_unfold data'_def options'_def cb'_def)
  next
    case (Inr p)
    obtain d lg where p: "p = (d, lg)" by (cases p)
    from Inr p obtain line where lg: "lg = [ConsoleLog line (request d)]"
      using decorateRequest_log by blast
    show ?thesis
    proof (cases "fetch e (URL d) (request d)")
      case failed: (Inl err)
      with assms Inr p lg show ?thesis
        by (auto simp: requestWrapper_unfold data'_def options'_def cb'_def)
    next
      case responded: (Inr res')
      have run: "requestWrapper m e url data options cb =
                  (Fulfilled (parseJSON res'),
                   lg @ [Fetch (URL d) (request d)] @ snd (checkStatus res'))"
        using Inr p responded
        by (simp add: requestWrapper_unfold data'_def options'_def cb'_def)
      from assms(1) have Ur: "U = URL d \<and> r = request d"
        unfolding run lg using no_Fetch_checkStatus by auto
      with assms(2) responded have "res' = res" by simp
      with run Ur lg show ?thesis by simp
    qed
  qed
qed

text \<open>The request a call issues is the one \<open>decorateRequest\<close> built, sent to the URL it resolved.\<close>

lemma requestWrapper_issues:
  assumes "Fetch U r \<in> set (snd (requestWrapper m e url data options cb))"
  shows "\<exists>lg. decorateRequest e m url (if data = JUndefined then JNull else data)
                 (if options = JUndefined then JObj [] else options)
                 (case cb of None \<Rightarrow> (\<lambda>a. a) | Some g \<Rightarrow> g) =
               Inr (\<lparr>request = r, URL = U\<rparr>, lg)"
proof -
  define data' where "data' = (if data = JUndefined then JNull else data)"
  define options' where "options' = (if options = JUndefined then JObj [] else options)"
  define cb' where "cb' = (case cb of None \<Rightarrow> (\<lambda>a. a) | Some g \<Rightarrow> g)"
  show ?thesis
  proof (cases "decorateRequest e m url data' options' cb'")
    case (Inl err)
    with assms show ?thesis
      by (simp add: requestWrapper_unfold data'_def options'_def cb'_def)
  next
    case (Inr p)
    obtain d lg where p: "p = (d, lg)" by (cases p)
    from Inr p obtain line where lg: "lg = [ConsoleLog line (request d)]"
      using decorateRequest_log by blast
    have "U = URL d \<and> r = request d"
      using assms Inr p lg no_Fetch_checkStatus
      by (cases "fetch e (URL d) (request d)")
        (auto simp: requestWrapper_unfold data'_def options'_def cb'_def)
    then have "d = \<lparr>request = r, URL = U\<rparr>" by simp
    with Inr p show ?thesis
      by (simp add: data'_def options'_def cb'_def)
  qed
qed

section \<open>The claims\<close>

subsection \<open>C1: token eviction\<close>

text \<open>
  C1.  For every request issued through \<open>get\<close>, \<open>post\<close>, \<open>put\<close>, \<open>patch\<close> or \<open>del\<close>,
  \<open>resetLocalToken\<close> is invoked exactly once when the status of the response is 401 or
  403, and is not invoked for any other status.  The request issued is the \<open>Fetch\<close> entry of
  the call's effects, the response is what the network gave to it, and the invocations
  are counted over all the effects of the call.
\<close>

theorem C1_token_eviction:
  assumes "f \<in> {get, post, put, patch, del}"
    and "Fetch U r \<in> set (snd (f e url data options cb))"
    and "fetch e U r = Inr res"
  shows "count_list (snd (f e url data options cb)) ResetLocalToken =
           (if status res = 401 \<or> status res = 403 then 1 else 0)"
proof -
  from assms(1) obtain m where f: "f = requestWrapper m"
    using verb_is_wrapper by blast
  from requestWrapper_responded [of U r m e url data options cb res] assms(2,3)
  obtain line where "f e url data options cb =
      (Fulfilled (parseJSON res), [ConsoleLog line r] @ [Fetch U r] @ snd (checkStatus res))"
    unfolding f by blast
  then show ?thesis
    by (simp add: count_checkStatus)
qed

text \<open>
  A run of C1: \<open>post('/login', {})\<close> answered with 401 evicts the token once.
\<close>

theorem C1_token_eviction_witness:
  "post \<in> {get, post, put, patch, del} \<and>
   Fetch ''https://api.example.com/login''
     (Obj [(''method'', Str ''POST''),
           (''headers'', Obj [(''Content-Type'', Str ''application/json; charset=UTF-8'')]),
           (''body'', Str ''{}'')])
     \<in> set (snd (post (exampleEnv None (Inr \<lparr>status = 401, ok = False, json = None\<rparr>))
                   ''/login'' (JObj []) JUndefined None)) \<and>
   count_list (snd (post (exampleEnv None (Inr \<lparr>status = 401, ok = False, json = None\<rparr>))
                      ''/login'' (JObj []) JUndefined None)) ResetLocalToken = 1"
  using C1_token_eviction [of post "''https://api.example.com/login''"
      "Obj [(''method'', Str ''POST''),
           (''headers'', Obj [(''Content-Type'', Str ''application/json; charset=UTF-8'')]),
           (''body'', Str ''{}'')]"
      "exampleEnv None (Inr \<lparr>status = 401, ok = False, json = None\<rparr>)"
      "''/login''" "JObj []" JUndefined None "\<lparr>status = 401, ok = False, json = None\<rparr>"]
  by (simp add: run_simps)

subsection \<open>C2: one settled value per call\<close>

text \<open>
  C2, as amended.  Every call of one of the five verb functions whose payload serialises
  (\<open>JSON.stringify\<close> does not throw on it) settles as exactly one fulfilled value: the
  promise is never rejected, whatever the transport does.  When the body of the response
  does not parse, that value is \<open>{ok: false}\<close>, except for status 204, where it is
  \<open>{ok: true, data: {}}\<close>.
\<close>

theorem C2_always_fulfilled:
  assumes "f \<in> {get, post, put, patch, del}"
    and "truthy data \<longrightarrow> (\<exists>s. JSON_stringify e data = Inr s)"
  shows "\<exists>v. fst (f e url data options cb) = Fulfilled v \<and>
           (\<forall>U r res. Fetch U r \<in> set (snd (f e url data options cb)) \<and>
                      fetch e U r = Inr res \<and> json res = None \<longrightarrow>
              v = (if status res = 204 then JObj [(''ok'', JBool True), (''data'', JObj [])]
                   else JObj [(''ok'', JBool False)]))"
proof -
  from assms(1) obtain m where f: "f = requestWrapper m"
    using verb_is_wrapper by blast
  define data' where "data' = (if data = JUndefined then JNull else data)"
  define options' where "options' = (if options = JUndefined then JObj [] else options)"
  define cb' where "cb' = (case cb of None \<Rightarrow> (\<lambda>a. a) | Some g \<Rightarrow> g)"
  from assms(2) have "truthy data' \<longrightarrow> (\<exists>s. JSON_stringify e data' = Inr s)"
    by (simp add: data'_def)
  then obtain d lg where dec: "decorateRequest e m url data' options' cb' = Inr (d, lg)"
    using decorateRequest_succeeds by blast
  then obtain line where lg: "lg = [ConsoleLog line (request d)]"
    using decorateRequest_log by blast
  show ?thesis
  proof (cases "fetch e (URL d) (request d)")
    case (Inl err)
    with dec lg show ?thesis
      by (auto simp: f requestWrapper_unfold data'_def options'_def cb'_def)
  next
    case (Inr res')
    with dec lg show ?thesis
      using no_Fetch_checkStatus
      by (auto simp: f requestWrapper_unfold data'_def options'_def cb'_def parseJSON_def)
  qed
qed

text \<open>
  A run of the amended C2: \<open>post('/login', {})\<close> answered with 500 and a body that does
  not parse resolves to \<open>{ok: false}\<close>.
\<close>

theorem C2_always_fulfilled_witness:
  "post \<in> {get, post, put, patch, del} \<and>
   truthy (JObj []) \<and>
   JSON_stringify (exampleEnv None (Inr \<lparr>status = 500, ok = False, json = None\<rparr>)) (JObj []) =
     Inr ''{}'' \<and>
   fst (post (exampleEnv None (Inr \<lparr>status = 500, ok = False, json = None\<rparr>))
          ''/login'' (JObj []) JUndefined None) = Fulfilled (JObj [(''ok'', JBool False)])"
  using C2_always_fulfilled [of post "JObj []"
      "exampleEnv None (Inr \<lparr>status = 500, ok = False, json = None\<rparr>)"
      "''/login''" JUndefined None]
  by (simp add: run_simps)

text \<open>
  C2 as written fails.  A parsing failure on a 204 response is folded into a Result with
  \<open>ok\<close> true, and a transport failure resolves to the caught error itself, which has no
  \<open>ok\<close> property: neither call resolves to a Result with \<open>ok\<close> equal to false.
\<close>

theorem C2_counterexample:
  "json \<lparr>status = 204, ok = True, json = None\<rparr> = None \<and>
   \<not> failedResult (fst (del (exampleEnv None (Inr \<lparr>status = 204, ok = True, json = None\<rparr>))
                          ''/sessions/1'' JUndefined JUndefined None)) \<and>
   \<not> failedResult (fst (get (exampleEnv None (Inl (JError ''Failed to fetch'')))
                          ''/users/1'' JUndefined JUndefined None))"
  by (simp add: run_simps failedResult_def)

subsection \<open>C3: the caller's options\<close>

text \<open>
  C3.  The claim has the caller's \<open>options\<close> merged last into the issued request, so that a
  field set in \<open>options\<close> appears there.  The code merges the defaults, the auth decoration
  and the payload decoration only; \<open>options\<close> reaches \<open>decorateRequest\<close> and is never read.
  The run \<open>get('/users', null, {credentials: 'include'})\<close> issues a request with the
  properties \<open>method\<close> and \<open>headers\<close> and no \<open>credentials\<close>.
\<close>

theorem C3_options_not_merged:
  "snd (get (exampleEnv None (Inr \<lparr>status = 200, ok = True, json = Some (JObj [])\<rparr>))
          ''/users'' JNull (JObj [(''credentials'', JStr ''include'')]) None) =
     [ConsoleLog ''Request /users was sent to our domain''
        (Obj [(''method'', Str ''GET''),
              (''headers'', Obj [(''Content-Type'', Str ''application/json; charset=UTF-8'')])]),
      Fetch ''https://api.example.com/users''
        (Obj [(''method'', Str ''GET''),
              (''headers'', Obj [(''Content-Type'', Str ''application/json; charset=UTF-8'')])])]"
  by (simp add: run_simps)

subsection \<open>C4: payload decoration\<close>

text \<open>
  C4, as amended.  In every built request: if \<open>data\<close> is a \<open>FormData\<close>, no
  \<open>Content-Type\<close> header is set; if \<open>data\<close> is any other truthy value, the body is
  \<open>JSON.stringify(data)\<close> and the header \<open>Content-Type: application/json; charset=UTF-8\<close>
  is set; and if \<open>data\<close> is absent (null, or any other falsy value), no body is added and
  the header \<open>Content-Type: application/json; charset=UTF-8\<close> is set all the same.
\<close>

theorem C4_payload_decoration:
  assumes "decorateRequest e m url data options cb = Inr (d, lg)"
  shows "(instanceofFormData data \<longrightarrow> header (request d) ''Content-Type'' = None) \<and>
         (truthy data \<and> \<not> instanceofFormData data \<longrightarrow>
            (\<exists>s. JSON_stringify e data = Inr s \<and> field (request d) ''body'' = Some (Str s)) \<and>
            header (request d) ''Content-Type'' = Some (Str ''application/json; charset=UTF-8'')) \<and>
         (\<not> truthy data \<longrightarrow>
            field (request d) ''body'' = None \<and>
            header (request d) ''Content-Type'' = Some (Str ''application/json; charset=UTF-8''))"
proof -
  note r = decorateRequest_built [OF assms]
  from assms obtain h where h: "getHeaderDataDecoration e data = Inr h"
    using decorateRequest_payload by blast
  have ser: "truthy data \<Longrightarrow> \<exists>s. JSON_stringify e data = Inr s"
    using h getHeaderDataDecoration_throws [of data e] by (cases "JSON_stringify e data") auto
  have 1: "instanceofFormData data \<Longrightarrow> header (request d) ''Content-Type'' = None"
    by (simp add: r header_def)
  have 2: "\<not> instanceofFormData data \<Longrightarrow>
           header (request d) ''Content-Type'' = Some (Str ''application/json; charset=UTF-8'')"
    by (simp add: r header_def)
  have 3: "truthy data \<Longrightarrow>
           \<exists>s. JSON_stringify e data = Inr s \<and> field (request d) ''body'' = Some (Str s)"
    using ser by (auto simp: r)
  have 4: "\<not> truthy data \<Longrightarrow> field (request d) ''body'' = None"
    by (simp add: r)
  from 1 2 3 4 truthy_not_FormData show ?thesis by blast
qed

text \<open>
  Three runs of the amended C4: a \<open>FormData\<close> payload, the payload \<open>{}\<close>, and no payload.
\<close>

theorem C4_payload_decoration_witness:
  "decorateRequest (exampleEnv None (Inl (JError ''Failed to fetch''))) ''POST'' ''/upload''
      (JFormData [(''name'', ''a'')]) (JObj []) (\<lambda>a. a) =
     Inr (\<lparr>request = Obj [(''method'', Str ''POST''), (''headers'', Obj []), (''body'', Str ''{}'')],
           URL = ''https://api.example.com/upload''\<rparr>,
          [ConsoleLog ''Request /upload was sent to our domain''
             (Obj [(''method'', Str ''POST''), (''headers'', Obj []), (''body'', Str ''{}'')])]) \<and>
   instanceofFormData (JFormData [(''name'', ''a'')]) \<and>
   header (Obj [(''method'', Str ''POST''), (''headers'', Obj []), (''body'', Str ''{}'')])
     ''Content-Type'' = None \<and>
   decorateRequest (exampleEnv None (Inl (JError ''Failed to fetch''))) ''POST'' ''/login''
      (JObj []) (JObj []) (\<lambda>a. a) =
     Inr (\<lparr>request = Obj [(''method'', Str ''POST''),
                           (''headers'', Obj [(''Content-Type'', Str ''application/json; charset=UTF-8'')]),
                           (''body'', Str ''{}'')],
           URL = ''https://api.example.com/login''\<rparr>,
          [ConsoleLog ''Request /login was sent to our domain''
             (Obj [(''method'', Str ''POST''),
                   (''headers'', Obj [(''Content-Type'', Str ''application/json; charset=UTF-8'')]),
                   (''body'', Str ''{}'')])]) \<and>
   truthy (JObj []) \<and> \<not> instanceofFormData (JObj []) \<and>
   field (Obj [(''method'', Str ''POST''),
               (''headers'', Obj [(''Content-Type'', Str ''application/json; charset=UTF-8'')]),
               (''body'', Str ''{}'')]) ''body'' = Some (Str ''{}'') \<and>
   decorateRequest (exampleEnv None (Inl (JError ''Failed to fetch''))) ''GET'' ''/users''
      JNull (JObj []) (\<lambda>a. a) =
     Inr (\<lparr>request = Obj [(''method'', Str ''GET''),
                           (''headers'', Obj [(''Content-Type'', Str ''application/json; charset=UTF-8'')])],
           URL = ''https://api.example.com/users''\<rparr>,
          [ConsoleLog ''Request /users was sent to our domain''
             (Obj [(''method'', Str ''GET''),
                   (''headers'', Obj [(''Content-Type'', Str ''application/json; charset=UTF-8'')])])]) \<and>
   \<not> truthy JNull \<and>
   field (Obj [(''method'', Str ''GET''),
               (''headers'', Obj [(''Content-Type'', Str ''application/json; charset=UTF-8'')])])
     ''body'' = None"
  using C4_payload_decoration [of "exampleEnv None (Inl (JError ''Failed to fetch''))" "''POST''"
      "''/upload''" "JFormData [(''name'', ''a'')]" "JObj []" "\<lambda>a. a"
      "\<lparr>request = Obj [(''method'', Str ''POST''), (''headers'', Obj []), (''body'', Str ''{}'')],
           URL = ''https://api.example.com/upload''\<rparr>"
      "[ConsoleLog ''Request /upload was sent to our domain''
             (Obj [(''method'', Str ''POST''), (''headers'', Obj []), (''body'', Str ''{}'')])]"]
    C4_payload_decoration [of "exampleEnv None (Inl (JError ''Failed to fetch''))" "''POST''"
      "''/login''" "JObj []" "JObj []" "\<lambda>a. a"
      "\<lparr>request = Obj [(''method'', Str ''POST''),
                           (''headers'', Obj [(''Content-Type'', Str ''application/json; charset=UTF-8'')]),
                           (''body'', Str ''{}'')],
           URL = ''https://api.example.com/login''\<rparr>"
      "[ConsoleLog ''Request /login was sent to our domain''
             (Obj [(''method'', Str ''POST''),
                   (''headers'', Obj [(''Content-Type'', Str ''application/json; charset=UTF-8'')]),
                   (''body'', Str ''{}'')])]"]
    C4_payload_decoration [of "exampleEnv None (Inl (JError ''Failed to fetch''))" "''GET''"
      "''/users''" JNull "JObj []" "\<lambda>a. a"
      "\<lparr>request = Obj [(''method'', Str ''GET''),
                           (''headers'', Obj [(''Content-Type'', Str ''application/json; charset=UTF-8'')])],
           URL = ''https://api.example.com/users''\<rparr>"
      "[ConsoleLog ''Request /users was sent to our domain''
             (Obj [(''method'', Str ''GET''),
                   (''headers'', Obj [(''Content-Type'', Str ''application/json; charset=UTF-8'')])])]"]
  by (simp add: run_simps)

text \<open>
  C4 as written fails where \<open>data\<close> is absent: the request built for \<open>get('/users')\<close>
  carries the \<open>Content-Type\<close> header although there is no payload.
\<close>

theorem C4_counterexample:
  "\<not> truthy JNull \<and>
   (case decorateRequest (exampleEnv None (Inl (JError ''Failed to fetch''))) ''GET'' ''/users''
           JNull (JObj []) (\<lambda>a. a) of
      Inl err \<Rightarrow> None
    | Inr (d, lg) \<Rightarrow> header (request d) ''Content-Type'') =
   Some (Str ''application/json; charset=UTF-8'')"
  by (simp add: run_simps)

subsection \<open>C5: the fields of the returned value\<close>

text \<open>
  C5, as amended.  Whenever the transport delivers a response, the value returned by any of
  the five verb functions is an object with a boolean property \<open>ok\<close>.  When the body parsed,
  or the status is 204, it has exactly the properties \<open>ok\<close> and \<open>data\<close>, where \<open>data\<close> is
  the parsed body (\<open>{}\<close> for an unparsed 204); otherwise \<open>ok\<close> is its only property.
\<close>

theorem C5_result_fields:
  assumes "f \<in> {get, post, put, patch, del}"
    and "Fetch U r \<in> set (snd (f e url data options cb))"
    and "fetch e U r = Inr res"
  shows "\<exists>v b. fst (f e url data options cb) = Fulfilled v \<and>
           property v ''ok'' = Some (JBool b) \<and>
           (if json res \<noteq> None \<or> status res = 204
            then set (ownKeys v) = {''ok'', ''data''} \<and> distinct (ownKeys v) \<and>
                 property v ''data'' = Some (case json res of Some j \<Rightarrow> j | None \<Rightarrow> JObj [])
            else ownKeys v = [''ok''])"
proof -
  from assms(1) obtain m where f: "f = requestWrapper m"
    using verb_is_wrapper by blast
  from requestWrapper_responded [of U r m e url data options cb res] assms(2,3)
  have "fst (f e url data options cb) = Fulfilled (parseJSON res)"
    unfolding f by auto
  then show ?thesis
    by (cases "json res") (auto simp: parseJSON_def)
qed

text \<open>
  A run of the amended C5: \<open>get('/users/999')\<close> answered with 404 and the body
  \<open>{error: "not found"}\<close>.
\<close>

theorem C5_result_fields_witness:
  "get \<in> {get, post, put, patch, del} \<and>
   Fetch ''https://api.example.com/users/999''
     (Obj [(''method'', Str ''GET''),
           (''headers'', Obj [(''Content-Type'', Str ''application/json; charset=UTF-8'')])])
     \<in> set (snd (get (exampleEnv None
                        (Inr \<lparr>status = 404, ok = False,
                              json = Some (JObj [(''error'', JStr ''not found'')])\<rparr>))
                   ''/users/999'' JUndefined JUndefined None)) \<and>
   (\<exists>v b. fst (get (exampleEnv None
                       (Inr \<lparr>status = 404, ok = False,
                             json = Some (JObj [(''error'', JStr ''not found'')])\<rparr>))
                  ''/users/999'' JUndefined JUndefined None) = Fulfilled v \<and>
          property v ''ok'' = Some (JBool b) \<and>
          set (ownKeys v) = {''ok'', ''data''} \<and> distinct (ownKeys v) \<and>
          property v ''data'' = Some (JObj [(''error'', JStr ''not found'')]))"
  using C5_result_fields [of get "''https://api.example.com/users/999''"
      "Obj [(''method'', Str ''GET''),
           (''headers'', Obj [(''Content-Type'', Str ''application/json; charset=UTF-8'')])]"
      "exampleEnv None (Inr \<lparr>status = 404, ok = False,
                              json = Some (JObj [(''error'', JStr ''not found'')])\<rparr>)"
      "''/users/999''" JUndefined JUndefined None
      "\<lparr>status = 404, ok = False, json = Some (JObj [(''error'', JStr ''not found'')])\<rparr>"]
  by (simp add: run_simps)

text \<open>
  C5 as written fails: \<open>get('/users/1')\<close> answered with 500 and a body that does not parse
  returns \<open>{ok: false}\<close>, which has no \<open>data\<close> property.
\<close>

theorem C5_counterexample:
  "fst (get (exampleEnv None (Inr \<lparr>status = 500, ok = False, json = None\<rparr>))
          ''/users/1'' JUndefined JUndefined None) = Fulfilled (JObj [(''ok'', JBool False)]) \<and>
   \<not> resultShape (JObj [(''ok'', JBool False)])"
  by (simp add: run_simps resultShape_def)

subsection \<open>C6: body normalisation\<close>

text \<open>
  C6.  For every response: if parsing the body fails and the status is 204, the result is
  \<open>{ok: true, data: {}}\<close>; if parsing fails and the status is not 204, the result is
  \<open>{ok: false}\<close>; and if parsing succeeds, the result is the object with exactly the
  properties \<open>ok\<close>, equal to the response's \<open>ok\<close>, and \<open>data\<close>, equal to the parsed body,
  whether or not the transport reported success.
\<close>

theorem C6_body_normalization:
  "(json res = None \<and> status res = 204 \<longrightarrow>
      parseJSON res = JObj [(''ok'', JBool True), (''data'', JObj [])]) \<and>
   (json res = None \<and> status res \<noteq> 204 \<longrightarrow> parseJSON res = JObj [(''ok'', JBool False)]) \<and>
   (\<forall>j. json res = Some j \<longrightarrow>
      set (ownKeys (parseJSON res)) = {''ok'', ''data''} \<and> distinct (ownKeys (parseJSON res)) \<and>
      property (parseJSON res) ''ok'' = Some (JBool (ok res)) \<and>
      property (parseJSON res) ''data'' = Some j)"
  by (auto simp: parseJSON_def)

text \<open>
  Runs of C6: an empty 204, an unparseable 502, a 404 with a JSON body and a 200 with a
  JSON body.
\<close>

theorem C6_body_normalization_witness:
  "parseJSON \<lparr>status = 204, ok = True, json = None\<rparr> =
     JObj [(''ok'', JBool True), (''data'', JObj [])] \<and>
   parseJSON \<lparr>status = 502, ok = False, json = None\<rparr> = JObj [(''ok'', JBool False)] \<and>
   property (parseJSON \<lparr>status = 404, ok = False,
                        json = Some (JObj [(''error'', JStr ''not found'')])\<rparr>)
     ''ok'' = Some (JBool False) \<and>
   property (parseJSON \<lparr>status = 404, ok = False,
                        json = Some (JObj [(''error'', JStr ''not found'')])\<rparr>)
     ''data'' = Some (JObj [(''error'', JStr ''not found'')]) \<and>
   property (parseJSON \<lparr>status = 200, ok = True, json = Some (JObj [(''id'', JNum 1)])\<rparr>)
     ''ok'' = Some (JBool True)"
  using C6_body_normalization [of "\<lparr>status = 204, ok = True, json = None\<rparr>"]
    C6_body_normalization [of "\<lparr>status = 502, ok = False, json = None\<rparr>"]
    C6_body_normalization
      [of "\<lparr>status = 404, ok = False, json = Some (JObj [(''error'', JStr ''not found'')])\<rparr>"]
    C6_body_normalization
      [of "\<lparr>status = 200, ok = True, json = Some (JObj [(''id'', JNum 1)])\<rparr>"]
  by simp

subsection \<open>C7: URL resolution\<close>




subsection \<open>C8: the Authorization header\<close>

text \<open>
  C8, as amended.  A request issued through any of the five verb functions carries the
  header \<open>Authorization: JWT <token>\<close> when its URL contains neither \<open>http://\<close> nor
  \<open>https://\<close> and the stored token is a non-empty string.  It carries no \<open>Authorization\<close>
  header when its URL contains \<open>http://\<close> or \<open>https://\<close> anywhere, whatever the token, nor
  when the stored token is null or the empty string.  When no token is stored (null or the
  empty string), a call whose payload serialises does not fail: it issues its request,
  without an \<open>Authorization\<close> header, and its promise is fulfilled.
\<close>

theorem C8_authorization_header:
  "(f \<in> {get, post, put, patch, del} \<and> Fetch U r \<in> set (snd (f e url data options cb0)) \<and>
    \<not> ((\<exists>a b. url = a @ ''http://'' @ b) \<or> (\<exists>a b. url = a @ ''https://'' @ b)) \<and>
    getLocalToken e = Some t \<and> t \<noteq> [] \<longrightarrow>
      header r ''Authorization'' = Some (Str (''JWT '' @ t))) \<and>
   (f \<in> {get, post, put, patch, del} \<and> Fetch U r \<in> set (snd (f e url data options cb0)) \<and>
    ((\<exists>a b. url = a @ ''http://'' @ b) \<or> (\<exists>a b. url = a @ ''https://'' @ b)) \<longrightarrow>
      header r ''Authorization'' = None) \<and>
   (f \<in> {get, post, put, patch, del} \<and> Fetch U r \<in> set (snd (f e url data options cb0)) \<and>
    (getLocalToken e = None \<or> getLocalToken e = Some []) \<longrightarrow>
      header r ''Authorization'' = None) \<and>
   (f \<in> {get, post, put, patch, del} \<and>
    (getLocalToken e = None \<or> getLocalToken e = Some []) \<and>
    (truthy data \<longrightarrow> (\<exists>s. JSON_stringify e data = Inr s)) \<longrightarrow>
      (\<exists>v. fst (f e url data options cb0) = Fulfilled v) \<and>
      (\<exists>U' r'. Fetch U' r' \<in> set (snd (f e url data options cb0)) \<and>
               header r' ''Authorization'' = None))"
  (is "?internal \<and> ?external \<and> ?tokenless \<and> ?anonymous")
proof -
  define data' where "data' = (if data = JUndefined then JNull else data)"
  define options' where "options' = (if options = JUndefined then JObj [] else options)"
  define cb' where "cb' = (case cb0 of None \<Rightarrow> (\<lambda>a. a) | Some g \<Rightarrow> g)"
  have issued: "header r ''Authorization'' =
           (if \<not> isRequestToExternalResource url \<and> truthyToken (getLocalToken e)
            then Some (Str (''JWT '' @ the (getLocalToken e))) else None)"
    if "f \<in> {get, post, put, patch, del}"
      and "Fetch U r \<in> set (snd (f e url data options cb0))"
  proof -
    from that(1) obtain m where f: "f = requestWrapper m"
      using verb_is_wrapper by blast
    from requestWrapper_issues [of U r m e url data options cb0] that(2)
    obtain lg where "decorateRequest e m url data' options' cb' =
        Inr (\<lparr>request = r, URL = U\<rparr>, lg)"
      unfolding f data'_def options'_def cb'_def by blast
    from decorateRequest_Authorization [OF this] show ?thesis by simp
  qed
  have 1: ?internal
    using issued by (auto simp: external_iff)
  have 2: ?external
    using issued by (auto simp: external_iff)
  have 3: ?tokenless
    using issued by auto
  have 4: ?anonymous
  proof
    assume a: "f \<in> {get, post, put, patch, del} \<and>
      (getLocalToken e = None \<or> getLocalToken e = Some []) \<and>
      (truthy data \<longrightarrow> (\<exists>s. JSON_stringify e data = Inr s))"
    then obtain m where f: "f = requestWrapper m"
      using verb_is_wrapper by blast
    from a have "truthy data' \<longrightarrow> (\<exists>s. JSON_stringify e data' = Inr s)"
      by (simp add: data'_def)
    then obtain d lg where dec: "decorateRequest e m url data' options' cb' = Inr (d, lg)"
      using decorateRequest_succeeds by blast
    from a have noauth: "header (request d) ''Authorization'' = None"
      using decorateRequest_Authorization [OF dec] by auto
    have "(\<exists>v. fst (f e url data options cb0) = Fulfilled v) \<and>
          Fetch (URL d) (request d) \<in> set (snd (f e url data options cb0))"
      using dec
      by (cases "fetch e (URL d) (request d)")
        (simp_all add: f requestWrapper_unfold data'_def options'_def cb'_def)
    with noauth
    show "(\<exists>v. fst (f e url data options cb0) = Fulfilled v) \<and>
        (\<exists>U' r'. Fetch U' r' \<in> set (snd (f e url data options cb0)) \<and>
                 header r' ''Authorization'' = None)"
      by blast
  qed
  from 1 2 3 4 show ?thesis by (intro conjI)
qed

text \<open>
  Runs of the amended C8, all through \<open>get\<close>: \<open>/users/1\<close> with the token \<open>abc\<close>;
  \<open>https://external.example/data\<close> with the same token; \<open>/users/1\<close> with the empty string
  as token; and \<open>/users/1\<close> with no token, answered with 200 and \<open>{id: 1}\<close>.
\<close>

theorem C8_authorization_header_witness:
  "get \<in> {get, post, put, patch, del} \<and>
   Fetch ''https://api.example.com/users/1''
     (Obj [(''method'', Str ''GET''),
           (''headers'', Obj [(''Authorization'', Str ''JWT abc''),
                              (''Content-Type'', Str ''application/json; charset=UTF-8'')])])
     \<in> set (snd (get (exampleEnv (Some ''abc'') (Inl (JError ''Failed to fetch'')))
                   ''/users/1'' JNull (JObj []) None)) \<and>
   \<not> ((\<exists>a b. ''/users/1'' = a @ ''http://'' @ b) \<or> (\<exists>a b. ''/users/1'' = a @ ''https://'' @ b)) \<and>
   getLocalToken (exampleEnv (Some ''abc'') (Inl (JError ''Failed to fetch''))) = Some ''abc'' \<and>
   header (Obj [(''method'', Str ''GET''),
                (''headers'', Obj [(''Authorization'', Str ''JWT abc''),
                                   (''Content-Type'', Str ''application/json; charset=UTF-8'')])])
     ''Authorization'' = Some (Str ''JWT abc'') \<and>
   Fetch ''https://external.example/data''
     (Obj [(''method'', Str ''GET''),
           (''headers'', Obj [(''Content-Type'', Str ''application/json; charset=UTF-8'')])])
     \<in> set (snd (get (exampleEnv (Some ''abc'') (Inl (JError ''Failed to fetch'')))
                   ''https://external.example/data'' JNull (JObj []) None)) \<and>
   ((\<exists>a b. ''https://external.example/data'' = a @ ''http://'' @ b) \<or>
    (\<exists>a b. ''https://external.example/data'' = a @ ''https://'' @ b)) \<and>
   Fetch ''https://api.example.com/users/1''
     (Obj [(''method'', Str ''GET''),
           (''headers'', Obj [(''Content-Type'', Str ''application/json; charset=UTF-8'')])])
     \<in> set (snd (get (exampleEnv (Some []) (Inl (JError ''Failed to fetch'')))
                   ''/users/1'' JNull (JObj []) None)) \<and>
   getLocalToken (exampleEnv (Some []) (Inl (JError ''Failed to fetch''))) = Some [] \<and>
   header (Obj [(''method'', Str ''GET''),
                (''headers'', Obj [(''Content-Type'', Str ''application/json; charset=UTF-8'')])])
     ''Authorization'' = None \<and>
   getLocalToken
     (exampleEnv None (Inr \<lparr>status = 200, ok = True, json = Some (JObj [(''id'', JNum 1)])\<rparr>)) =
     None \<and>
   fst (get (exampleEnv None (Inr \<lparr>status = 200, ok = True, json = Some (JObj [(''id'', JNum 1)])\<rparr>))
          ''/users/1'' JNull (JObj []) None) =
     Fulfilled (JObj [(''data'', JObj [(''id'', JNum 1)]), (''ok'', JBool True)]) \<and>
   Fetch ''https://api.example.com/users/1''
     (Obj [(''method'', Str ''GET''),
           (''headers'', Obj [(''Content-Type'', Str ''application/json; charset=UTF-8'')])])
     \<in> set (snd (get (exampleEnv None
                        (Inr \<lparr>status = 200, ok = True, json = Some (JObj [(''id'', JNum 1)])\<rparr>))
                   ''/users/1'' JNull (JObj []) None))"
  using C8_authorization_header [of get "''https://api.example.com/users/1''"
      "Obj [(''method'', Str ''GET''),
           (''headers'', Obj [(''Authorization'', Str ''JWT abc''),
                              (''Content-Type'', Str ''application/json; charset=UTF-8'')])]"
      "exampleEnv (Some ''abc'') (Inl (JError ''Failed to fetch''))"
      "''/users/1''" JNull "JObj []" None "''abc''"]
    C8_authorization_header [of get "''https://external.example/data''"
      "Obj [(''method'', Str ''GET''),
           (''headers'', Obj [(''Content-Type'', Str ''application/json; charset=UTF-8'')])]"
      "exampleEnv (Some ''abc'') (Inl (JError ''Failed to fetch''))"
      "''https://external.example/data''" JNull "JObj []" None "''abc''"]
    C8_authorization_header [of get "''https://api.example.com/users/1''"
      "Obj [(''method'', Str ''GET''),
           (''headers'', Obj [(''Content-Type'', Str ''application/json; charset=UTF-8'')])]"
      "exampleEnv (Some []) (Inl (JError ''Failed to fetch''))"
      "''/users/1''" JNull "JObj []" None "[]"]
    C8_authorization_header [of get "''https://api.example.com/users/1''"
      "Obj [(''method'', Str ''GET''),
           (''headers'', Obj [(''Content-Type'', Str ''application/json; charset=UTF-8'')])]"
      "exampleEnv None (Inr \<lparr>status = 200, ok = True, json = Some (JObj [(''id'', JNum 1)])\<rparr>)"
      "''/users/1''" JNull "JObj []" None "[]"]
  by (simp add: run_simps occursIn_iff [symmetric])

text \<open>
  C8 as written fails on both header clauses, with internal and external read as the
  specification defines them (external: a URL with an explicit \<open>scheme://\<close> prefix).
  \<open>get('ftp://files.example.com/report')\<close> goes to an external resource, and with the token
  \<open>abc\<close> stored its request carries \<open>Authorization: JWT abc\<close>.
  \<open>get('/redirect?next=http://other.example/')\<close> goes to an internal resource, and with the
  same token stored its request carries no \<open>Authorization\<close> header.
\<close>

theorem C8_counterexample:
  "matchesSchemePattern ''ftp://files.example.com/report'' \<and>
   getLocalToken (exampleEnv (Some ''abc'') (Inl (JError ''Failed to fetch''))) = Some ''abc'' \<and>
   snd (get (exampleEnv (Some ''abc'') (Inl (JError ''Failed to fetch'')))
          ''ftp://files.example.com/report'' JUndefined JUndefined None) =
     [ConsoleLog ''Request ftp://files.example.com/report was sent to our domain''
        (Obj [(''method'', Str ''GET''),
              (''headers'', Obj [(''Authorization'', Str ''JWT abc''),
                                 (''Content-Type'', Str ''application/json; charset=UTF-8'')])]),
      Fetch ''https://api.example.comftp://files.example.com/report''
        (Obj [(''method'', Str ''GET''),
              (''headers'', Obj [(''Authorization'', Str ''JWT abc''),
                                 (''Content-Type'', Str ''application/json; charset=UTF-8'')])]),
      ConsoleError (JError ''Failed to fetch'')] \<and>
   header (Obj [(''method'', Str ''GET''),
                (''headers'', Obj [(''Authorization'', Str ''JWT abc''),
                                   (''Content-Type'', Str ''application/json; charset=UTF-8'')])])
     ''Authorization'' = Some (Str ''JWT abc'') \<and>
   \<not> matchesSchemePattern ''/redirect?next=http://other.example/'' \<and>
   snd (get (exampleEnv (Some ''abc'') (Inl (JError ''Failed to fetch'')))
          ''/redirect?next=http://other.example/'' JUndefined JUndefined None) =
     [ConsoleLog ''Request /redirect?next=http://other.example/ was sent to external domain''
        (Obj [(''method'', Str ''GET''),
              (''headers'', Obj [(''Content-Type'', Str ''application/json; charset=UTF-8'')])]),
      Fetch ''/redirect?next=http://other.example/''
        (Obj [(''method'', Str ''GET''),
              (''headers'', Obj [(''Content-Type'', Str ''application/json; charset=UTF-8'')])]),
      ConsoleError (JError ''Failed to fetch'')] \<and>
   header (Obj [(''method'', Str ''GET''),
                (''headers'', Obj [(''Content-Type'', Str ''application/json; charset=UTF-8'')])])
     ''Authorization'' = None"
  by (simp add: run_simps matchesSchemePattern_def schemeChar_def)

subsection \<open>C9: the callback\<close>

text \<open>
  C9.  The fourth parameter \<open>cb\<close> is never applied: whatever callback is passed (or none),
  the decorated URL, the built request, the effects and the returned value of each of the
  five verb functions are those obtained with the identity callback.
\<close>

theorem C9_callback_ignored:
  "decorateRequest e m url data options cb = decorateRequest e m url data options (\<lambda>a. a) \<and>
   get e url data options cb0 = get e url data options (Some (\<lambda>a. a)) \<and>
   post e url data options cb0 = post e url data options (Some (\<lambda>a. a)) \<and>
   put e url data options cb0 = put e url data options (Some (\<lambda>a. a)) \<and>
   patch e url data options cb0 = patch e url data options (Some (\<lambda>a. a)) \<and>
   del e url data options cb0 = del e url data options (Some (\<lambda>a. a))"
proof -
  have "requestWrapper m' e url data options cb0 =
        requestWrapper m' e url data options (Some (\<lambda>a. a))" for m'
    unfolding requestWrapper_unfold
    using decorateRequest_ignores
      [of e m' url "if data = JUndefined then JNull else data"
          "if options = JUndefined then JObj [] else options"
          "case cb0 of None \<Rightarrow> (\<lambda>a. a) | Some g \<Rightarrow> g"
          "if options = JUndefined then JObj [] else options"
          "case Some (\<lambda>a. a) of None \<Rightarrow> (\<lambda>a. a) | Some g \<Rightarrow> g"]
    by (simp only:)
  then show ?thesis
    using decorateRequest_ignores [of e m url data options cb options "\<lambda>a. a"]
    by (simp add: get_def post_def put_def patch_def del_def)
qed

subsection \<open>C10: what counts as external\<close>

text \<open>
  C10.  A URL is classified as external exactly when it contains \<open>http://\<close> or \<open>https://\<close>
  somewhere.  A URL that contains neither, such as one with the scheme \<open>ftp://\<close>, is
  therefore internal: it is prefixed with the base API origin, and it receives the
  \<open>Authorization\<close> header when a token is present.
\<close>

theorem C10_external_classification:
  "(isRequestToExternalResource url \<longleftrightarrow>
      (\<exists>a b. url = a @ ''http://'' @ b) \<or> (\<exists>a b. url = a @ ''https://'' @ b)) \<and>
   (\<not> ((\<exists>a b. url = a @ ''http://'' @ b) \<or> (\<exists>a b. url = a @ ''https://'' @ b)) \<and>
    decorateRequest e m url data options cb = Inr (d, lg) \<longrightarrow>
      URL d = BASE_API e @ url \<and>
      (\<forall>t. getLocalToken e = Some t \<and> t \<noteq> [] \<longrightarrow>
         header (request d) ''Authorization'' = Some (Str (''JWT '' @ t))))"
proof (intro conjI impI)
  show "isRequestToExternalResource url \<longleftrightarrow>
      (\<exists>a b. url = a @ ''http://'' @ b) \<or> (\<exists>a b. url = a @ ''https://'' @ b)"
    by (rule external_iff)
next
  assume a: "\<not> ((\<exists>a b. url = a @ ''http://'' @ b) \<or> (\<exists>a b. url = a @ ''https://'' @ b)) \<and>
    decorateRequest e m url data options cb = Inr (d, lg)"
  then have int: "\<not> isRequestToExternalResource url" and
    dec: "decorateRequest e m url data options cb = Inr (d, lg)"
    by (simp_all add: external_iff)
  from int show "URL d = BASE_API e @ url"
    using decorateRequest_URL [OF dec] by simp
  from int show "\<forall>t. getLocalToken e = Some t \<and> t \<noteq> [] \<longrightarrow>
         header (request d) ''Authorization'' = Some (Str (''JWT '' @ t))"
    using decorateRequest_Authorization [OF dec] by simp
qed

text \<open>A run of C10 on \<open>ftp://files.example.com/report\<close> with the token \<open>abc\<close>.\<close>

theorem C10_external_classification_witness:
  "\<not> isRequestToExternalResource ''ftp://files.example.com/report'' \<and>
   \<not> ((\<exists>a b. ''ftp://files.example.com/report'' = a @ ''http://'' @ b) \<or>
      (\<exists>a b. ''ftp://files.example.com/report'' = a @ ''https://'' @ b)) \<and>
   decorateRequest (exampleEnv (Some ''abc'') (Inl (JError ''Failed to fetch''))) ''GET''
      ''ftp://files.example.com/report'' JNull (JObj []) (\<lambda>a. a) =
     Inr (\<lparr>request = Obj [(''method'', Str ''GET''),
                           (''headers'', Obj [(''Authorization'', Str ''JWT abc''),
                                              (''Content-Type'', Str ''application/json; charset=UTF-8'')])],
           URL = ''https://api.example.comftp://files.example.com/report''\<rparr>,
          [ConsoleLog ''Request ftp://files.example.com/report was sent to our domain''
             (Obj [(''method'', Str ''GET''),
                   (''headers'', Obj [(''Authorization'', Str ''JWT abc''),
                                      (''Content-Type'', Str ''application/json; charset=UTF-8'')])])]) \<and>
   header (Obj [(''method'', Str ''GET''),
                (''headers'', Obj [(''Authorization'', Str ''JWT abc''),
                                   (''Content-Type'', Str ''application/json; charset=UTF-8'')])])
     ''Authorization'' = Some (Str ''JWT abc'')"
  using C10_external_classification [of "''ftp://files.example.com/report''"
      "exampleEnv (Some ''abc'') (Inl (JError ''Failed to fetch''))" "''GET''"
      JNull "JObj []" "\<lambda>a. a"
      "\<lparr>request = Obj [(''method'', Str ''GET''),
                           (''headers'', Obj [(''Authorization'', Str ''JWT abc''),
                                              (''Content-Type'', Str ''application/json; charset=UTF-8'')])],
           URL = ''https://api.example.comftp://files.example.com/report''\<rparr>"
      "[ConsoleLog ''Request ftp://files.example.com/report was sent to our domain''
             (Obj [(''method'', Str ''GET''),
                   (''headers'', Obj [(''Authorization'', Str ''JWT abc''),
                                      (''Content-Type'', Str ''application/json; charset=UTF-8'')])])]"]
  by (simp add: run_simps occursIn_iff [symmetric])

end
